theory Spec2Isabelle
  imports Main "HOL-Library.Word"
begin

unbundle bit_operations_syntax

section \<open>Python values, exceptions and the transport\<close>

text \<open>
  The values the EAT code handles are decoded JSON documents: Python's \<open>None\<close>, booleans,
  integers, strings, lists and dicts. A dict is an association list in insertion order,
  looked up with \<open>map_of\<close>. Strings and byte strings are both \<open>string\<close> (8-bit characters).
  JSON numbers are integers in this model.
\<close>

datatype json =
    JNull
  | JBool bool
  | JInt int
  | JStr string
  | JList "json list"
  | JObj "(string \<times> json) list"

text \<open>
  Exceptions are values. A message built by an f-string around a caught exception keeps
  that exception: \<open>MsgExn p e\<close> is \<open>f"{p}: {e}"\<close> and \<open>MsgMCP code message\<close> is
  \<open>f"MCP Error {code}: {message}"\<close>.
\<close>

datatype exn =
    RuntimeError
  | ValueError
  | AttributeError
  | TypeError
  | KeyError
  | JSONDecodeError
  | ClientError
  | OtherException
  | InvalidTokenError
  | SecurityError msg
  | MCPError msg
and msg =
    Msg string
  | MsgExn string exn
  | MsgMCP json json

text \<open>Truthiness, as \<open>if x:\<close> and \<open>not x\<close> use it.\<close>

fun truthy :: "json \<Rightarrow> bool" where
  "truthy JNull = False"
| "truthy (JBool b) = b"
| "truthy (JInt i) = (i \<noteq> 0)"
| "truthy (JStr s) = (s \<noteq> [])"
| "truthy (JList xs) = (xs \<noteq> [])"
| "truthy (JObj kvs) = (kvs \<noteq> [])"

text \<open>\<open>x.get(k, default)\<close>: only a dict has the method.\<close>

fun py_get :: "json \<Rightarrow> string \<Rightarrow> json \<Rightarrow> exn + json" where
  "py_get (JObj kvs) k d = Inr (case map_of kvs k of Some v \<Rightarrow> v | None \<Rightarrow> d)"
| "py_get _ k d = Inl AttributeError"

text \<open>\<open>x[k]\<close> with a string key.\<close>

fun py_getitem :: "json \<Rightarrow> string \<Rightarrow> exn + json" where
  "py_getitem (JObj kvs) k = (case map_of kvs k of Some v \<Rightarrow> Inr v | None \<Rightarrow> Inl KeyError)"
| "py_getitem _ k = Inl TypeError"

text \<open>\<open>for x in v\<close>: a list gives its elements, a dict its keys, a string its characters.\<close>

fun py_iter :: "json \<Rightarrow> exn + json list" where
  "py_iter (JList xs) = Inr xs"
| "py_iter (JObj kvs) = Inr (map (\<lambda>kv. JStr (fst kv)) kvs)"
| "py_iter (JStr s) = Inr (map (\<lambda>c. JStr [c]) s)"
| "py_iter _ = Inl TypeError"

fun py_len :: "json \<Rightarrow> exn + nat" where
  "py_len (JList xs) = Inr (length xs)"
| "py_len (JObj kvs) = Inr (length kvs)"
| "py_len (JStr s) = Inr (length s)"
| "py_len _ = Inl TypeError"

fun startswith :: "string \<Rightarrow> string \<Rightarrow> bool" where
  "startswith s [] = True"
| "startswith [] (c # cs) = False"
| "startswith (x # xs) (c # cs) = (x = c \<and> startswith xs cs)"

fun contains :: "string \<Rightarrow> string \<Rightarrow> bool" where
  "contains [] sub = (sub = [])"
| "contains (x # xs) sub = (startswith (x # xs) sub \<or> contains xs sub)"

definition endswith :: "string \<Rightarrow> string \<Rightarrow> bool" where
  "endswith s suf \<longleftrightarrow> length suf \<le> length s \<and> drop (length s - length suf) s = suf"

text \<open>\<open>s in v\<close> for a string \<open>s\<close>.\<close>

fun str_in :: "string \<Rightarrow> json \<Rightarrow> exn + bool" where
  "str_in s (JList xs) = Inr (JStr s \<in> set xs)"
| "str_in s (JObj kvs) = Inr (s \<in> set (map fst kvs))"
| "str_in s (JStr t) = Inr (contains t s)"
| "str_in s _ = Inl TypeError"

text \<open>
  \<open>a == b\<close>: a boolean equals the integer 0 or 1; otherwise the values are compared
  structurally.
\<close>

fun num_of :: "json \<Rightarrow> int option" where
  "num_of (JBool b) = Some (if b then 1 else 0)"
| "num_of (JInt i) = Some i"
| "num_of _ = None"

definition py_eq :: "json \<Rightarrow> json \<Rightarrow> bool" where
  "py_eq a b = (case (num_of a, num_of b) of (Some x, Some y) \<Rightarrow> x = y | _ \<Rightarrow> a = b)"

definition lower_char :: "char \<Rightarrow> char" where
  "lower_char c = (let n = (of_char c :: nat) in if 65 \<le> n \<and> n \<le> 90 then char_of (n + 32) else c)"

definition lower :: "string \<Rightarrow> string" where
  "lower s = map lower_char s"

definition rstrip :: "char \<Rightarrow> string \<Rightarrow> string" where
  "rstrip c s = rev (dropWhile (\<lambda>x. x = c) (rev s))"

text \<open>Sequencing: an exception raised by the first step is the result.\<close>

definition and_then :: "exn + 'a \<Rightarrow> ('a \<Rightarrow> exn + 'b) \<Rightarrow> exn + 'b" where
  "and_then m f = (case m of Inl e \<Rightarrow> Inl e | Inr x \<Rightarrow> f x)"

fun map_exn :: "('a \<Rightarrow> exn + 'b) \<Rightarrow> 'a list \<Rightarrow> exn + 'b list" where
  "map_exn f [] = Inr []"
| "map_exn f (x # xs) =
     (case f x of Inl e \<Rightarrow> Inl e
      | Inr y \<Rightarrow> (case map_exn f xs of Inl e \<Rightarrow> Inl e | Inr ys \<Rightarrow> Inr (y # ys)))"

fun filter_exn :: "('a \<Rightarrow> exn + bool) \<Rightarrow> 'a list \<Rightarrow> exn + 'a list" where
  "filter_exn p [] = Inr []"
| "filter_exn p (x # xs) =
     (case p x of Inl e \<Rightarrow> Inl e
      | Inr b \<Rightarrow> (case filter_exn p xs of Inl e \<Rightarrow> Inl e
                  | Inr ys \<Rightarrow> Inr (if b then x # ys else ys)))"

text \<open>
  The transport. Every request the code hands to aiohttp is appended to the world's log;
  the network answers a request, given the requests made so far, with an exception or
  with a status and a body.
\<close>

datatype request = GET string | POST string json

datatype http_result = Fails exn | Responds nat string

type_synonym world = "request list"

type_synonym network = "request list \<Rightarrow> request \<Rightarrow> http_result"

definition send :: "network \<Rightarrow> request \<Rightarrow> world \<Rightarrow> http_result \<times> world" where
  "send net r w = (net w r, w @ [r])"

text \<open>
  The libraries the code calls (json, urllib, PyJWT, cryptography, aiohttp's body decoding,
  the built-in \<open>str\<close>) are parameters; \<open>'k\<close> is the type of public keys.
\<close>

record 'k lib =
  json_loads :: "string \<Rightarrow> exn + json"
  response_json :: "string \<Rightarrow> exn + json"
  py_str :: "json \<Rightarrow> string"
  urljoin :: "string \<Rightarrow> string \<Rightarrow> string"
  urlparse_scheme :: "string \<Rightarrow> string"
  urlparse_netloc :: "string \<Rightarrow> string"
  get_unverified_header :: "string \<Rightarrow> exn + json"
  jwt_decode :: "string \<Rightarrow> 'k \<Rightarrow> json \<Rightarrow> exn + json"
  from_jwk :: "json \<Rightarrow> exn + 'k"
  load_pem_public_key :: "string \<Rightarrow> exn + 'k"

section \<open>discovery.py: Tool\<close>

record tool =
  tool_spec :: json
  tool_id :: json
  description :: json
  parameters :: json
  examples :: json
  server_url :: json
  capabilities :: json

text \<open>\<open>spec.get('x-mcp-tool', {}).get(k, d)\<close>\<close>

definition x_mcp_get :: "json \<Rightarrow> string \<Rightarrow> json \<Rightarrow> exn + json" where
  "x_mcp_get spec k d = and_then (py_get spec ''x-mcp-tool'' (JObj [])) (\<lambda>x. py_get x k d)"

definition Tool_init :: "json \<Rightarrow> exn + tool" where
  "Tool_init spec =
     and_then (py_get spec ''operationId'' (JStr '''')) (\<lambda>oid.
     and_then (py_get spec ''name'' oid) (\<lambda>i.
     and_then (py_get spec ''description'' (JStr '''')) (\<lambda>d.
     and_then (py_get spec ''parameters'' (JObj [])) (\<lambda>p.
     and_then (x_mcp_get spec ''examples'' (JList [])) (\<lambda>ex.
     and_then (x_mcp_get spec ''server_url'' (JStr '''')) (\<lambda>su.
     and_then (x_mcp_get spec ''capabilities'' (JList [])) (\<lambda>cs.
       Inr \<lparr>tool_spec = spec, tool_id = i, description = d, parameters = p,
            examples = ex, server_url = su, capabilities = cs\<rparr>)))))))"

section \<open>mcp_client.py: MCPClient\<close>

record mcp_client =
  endpoint :: string
  timeout :: int

text \<open>\<open>MCPClient(endpoint)\<close>: \<open>endpoint.rstrip('/')\<close> needs a string.\<close>

fun MCPClient_init :: "json \<Rightarrow> exn + mcp_client" where
  "MCPClient_init (JStr s) = Inr \<lparr>endpoint = rstrip (CHR ''/'') s, timeout = 30\<rparr>"
| "MCPClient_init _ = Inl AttributeError"

text \<open>The body of the \<open>try\<close> of \<open>call_tool\<close> after the response is decoded.\<close>

definition raise_mcp_error :: "json \<Rightarrow> exn + json" where
  "raise_mcp_error result =
     and_then (py_getitem result ''error'') (\<lambda>err.
     and_then (py_get err ''code'' (JStr ''unknown'')) (\<lambda>code.
     and_then (py_get err ''message'' (JStr ''Unknown error'')) (\<lambda>m.
       Inl (MCPError (MsgMCP code m)))))"

definition interpret_result :: "json \<Rightarrow> exn + json" where
  "interpret_result result =
     and_then (str_in ''error'' result) (\<lambda>has_error.
       if has_error then raise_mcp_error result
       else py_get result ''result'' (JObj []))"

text \<open>The two \<open>except\<close> clauses of \<open>call_tool\<close>.\<close>

definition mcp_handler :: "exn \<Rightarrow> exn" where
  "mcp_handler e = (if e = ClientError then MCPError (MsgExn ''Network error'' e)
                    else MCPError (MsgExn ''Unexpected error'' e))"

definition mcp_request :: "'k lib \<Rightarrow> tool \<Rightarrow> json \<Rightarrow> nat \<Rightarrow> json" where
  "mcp_request L t params pid =
     JObj [(''jsonrpc'', JStr ''2.0''),
           (''id'', JStr (''tool_'' @ py_str L (tool_id t) @ ''_'' @ py_str L (JInt (int pid)))),
           (''method'', JStr ''tools/call''),
           (''params'', JObj [(''name'', tool_id t), (''arguments'', params)])]"

text \<open>
  \<open>call_tool(tool, params)\<close>; \<open>pid\<close> is \<open>id(params)\<close>. The session object is created
  without network activity and is not modelled.
\<close>

definition call_tool ::
  "'k lib \<Rightarrow> network \<Rightarrow> mcp_client \<Rightarrow> tool \<Rightarrow> json \<Rightarrow> nat \<Rightarrow> world \<Rightarrow> (exn + json) \<times> world" where
  "call_tool L net c t params pid w =
     (case send net (POST (urljoin L (endpoint c) ''/mcp'') (mcp_request L t params pid)) w of
        (Fails e, w') \<Rightarrow> (Inl (mcp_handler e), w')
      | (Responds st body, w') \<Rightarrow>
          if 400 \<le> st then (Inl (mcp_handler ClientError), w')
          else (case and_then (response_json L body) interpret_result of
                  Inl e \<Rightarrow> (Inl (mcp_handler e), w')
                | Inr v \<Rightarrow> (Inr v, w')))"

text \<open>\<open>Tool.call(**params)\<close>\<close>

definition Tool_call ::
  "'k lib \<Rightarrow> network \<Rightarrow> tool \<Rightarrow> json \<Rightarrow> nat \<Rightarrow> world \<Rightarrow> (exn + json) \<times> world" where
  "Tool_call L net t params pid w =
     (if \<not> truthy (server_url t) then (Inl ValueError, w)
      else (case MCPClient_init (server_url t) of
              Inl e \<Rightarrow> (Inl e, w)
            | Inr c \<Rightarrow> call_tool L net c t params pid w))"

section \<open>hashlib.sha256\<close>

text \<open>
  \<open>hashlib.sha256(content).hexdigest()\<close>, as FIPS 180-4 defines it: the message is padded
  to a multiple of 64 bytes, each block updates eight 32-bit words through 64 rounds, and
  the final words are written as 64 lowercase hexadecimal digits.
\<close>

type_synonym u32 = "32 word"

definition rotr :: "nat \<Rightarrow> u32 \<Rightarrow> u32" where
  "rotr n x = drop_bit n x OR push_bit (32 - n) x"

definition K256 :: "u32 list" where
  "K256 = [
  0x428a2f98, 0x71374491, 0xb5c0fbcf, 0xe9b5dba5, 0x3956c25b, 0x59f111f1, 0x923f82a4, 0xab1c5ed5,
  0xd807aa98, 0x12835b01, 0x243185be, 0x550c7dc3, 0x72be5d74, 0x80deb1fe, 0x9bdc06a7, 0xc19bf174,
  0xe49b69c1, 0xefbe4786, 0x0fc19dc6, 0x240ca1cc, 0x2de92c6f, 0x4a7484aa, 0x5cb0a9dc, 0x76f988da,
  0x983e5152, 0xa831c66d, 0xb00327c8, 0xbf597fc7, 0xc6e00bf3, 0xd5a79147, 0x06ca6351, 0x14292967,
  0x27b70a85, 0x2e1b2138, 0x4d2c6dfc, 0x53380d13, 0x650a7354, 0x766a0abb, 0x81c2c92e, 0x92722c85,
  0xa2bfe8a1, 0xa81a664b, 0xc24b8b70, 0xc76c51a3, 0xd192e819, 0xd6990624, 0xf40e3585, 0x106aa070,
  0x19a4c116, 0x1e376c08, 0x2748774c, 0x34b0bcb5, 0x391c0cb3, 0x4ed8aa4a, 0x5b9cca4f, 0x682e6ff3,
  0x748f82ee, 0x78a5636f, 0x84c87814, 0x8cc70208, 0x90befffa, 0xa4506ceb, 0xbef9a3f7, 0xc67178f2]"

definition H256 :: "u32 list" where
  "H256 = [0x6a09e667, 0xbb67ae85, 0x3c6ef372, 0xa54ff53a,
           0x510e527f, 0x9b05688c, 0x1f83d9ab, 0x5be0cd19]"

definition Ch :: "u32 \<Rightarrow> u32 \<Rightarrow> u32 \<Rightarrow> u32" where
  "Ch x y z = (x AND y) XOR (NOT x AND z)"

definition Maj :: "u32 \<Rightarrow> u32 \<Rightarrow> u32 \<Rightarrow> u32" where
  "Maj x y z = (x AND y) XOR (x AND z) XOR (y AND z)"

definition bsig0 :: "u32 \<Rightarrow> u32" where
  "bsig0 x = rotr 2 x XOR rotr 13 x XOR rotr 22 x"

definition bsig1 :: "u32 \<Rightarrow> u32" where
  "bsig1 x = rotr 6 x XOR rotr 11 x XOR rotr 25 x"

definition ssig0 :: "u32 \<Rightarrow> u32" where
  "ssig0 x = rotr 7 x XOR rotr 18 x XOR drop_bit 3 x"

definition ssig1 :: "u32 \<Rightarrow> u32" where
  "ssig1 x = rotr 17 x XOR rotr 19 x XOR drop_bit 10 x"

text \<open>
  The message schedule, kept newest first: \<open>ws\<close> is \<open>[W(t-1), ..., W(0)]\<close>, and one step
  adds \<open>W(t)\<close> from \<open>W(t-2)\<close>, \<open>W(t-7)\<close>, \<open>W(t-15)\<close> and \<open>W(t-16)\<close>.
\<close>

fun schedule :: "nat \<Rightarrow> u32 list \<Rightarrow> u32 list" where
  "schedule 0 ws = ws"
| "schedule (Suc n) ws =
     schedule n ((ssig1 (ws ! 1) + ws ! 6 + ssig0 (ws ! 14) + ws ! 15) # ws)"

fun round256 :: "u32 list \<Rightarrow> u32 \<times> u32 \<Rightarrow> u32 list" where
  "round256 [a, b, c, d, e, f, g, h] (k, w) =
     (let t1 = h + bsig1 e + Ch e f g + k + w;
          t2 = bsig0 a + Maj a b c
      in [t1 + t2, a, b, c, d + t1, e, f, g])"
| "round256 s _ = s"

fun be32 :: "string \<Rightarrow> u32" where
  "be32 [b0, b1, b2, b3] =
     push_bit 24 (of_char b0) OR push_bit 16 (of_char b1) OR push_bit 8 (of_char b2) OR of_char b3"
| "be32 _ = 0"

fun chunks :: "nat \<Rightarrow> nat \<Rightarrow> 'a list \<Rightarrow> 'a list list" where
  "chunks 0 k xs = []"
| "chunks (Suc n) k xs = take k xs # chunks n k (drop k xs)"

definition compress :: "u32 list \<Rightarrow> string \<Rightarrow> u32 list" where
  "compress s blk =
     (let ws = rev (schedule 48 (rev (map be32 (chunks 16 4 blk))))
      in map2 (+) s (foldl round256 s (zip K256 ws)))"

definition pad :: "string \<Rightarrow> string" where
  "pad m =
     (let l = length m
      in m @ [char_of (128 :: nat)] @ replicate ((119 - l mod 64) mod 64) (char_of (0 :: nat)) @
         map (\<lambda>i. char_of ((8 * l) div 256 ^ i)) (rev [0..<8]))"

definition hexdigit :: "nat \<Rightarrow> char" where
  "hexdigit n = ''0123456789abcdef'' ! n"

definition hex32 :: "u32 \<Rightarrow> string" where
  "hex32 w = map (\<lambda>i. hexdigit (unat (drop_bit (4 * i) w AND 15))) (rev [0..<8])"

definition sha256_hexdigest :: "string \<Rightarrow> string" where
  "sha256_hexdigest m =
     (let p = pad m
      in concat (map hex32 (foldl compress H256 (chunks (length p div 64) 64 p))))"

section \<open>security.py\<close>

definition compute_sha256 :: "string \<Rightarrow> string" where
  "compute_sha256 content = sha256_hexdigest content"

text \<open>\<open>response.raise_for_status()\<close> and reading the body.\<close>

fun raise_for_status :: "http_result \<Rightarrow> exn + string" where
  "raise_for_status (Fails e) = Inl e"
| "raise_for_status (Responds st body) = (if 400 \<le> st then Inl ClientError else Inr body)"

text \<open>
  \<open>verify_content_integrity(url, expected_hash)\<close>: the body of the \<open>try\<close>, and the
  \<open>except Exception\<close> around it that returns \<open>False\<close>.
\<close>

definition integrity_try :: "network \<Rightarrow> string \<Rightarrow> string \<Rightarrow> world \<Rightarrow> (exn + bool) \<times> world" where
  "integrity_try net u expected_hash w =
     (case send net (GET u) w of
        (r, w') \<Rightarrow> (and_then (raise_for_status r)
                      (\<lambda>content. Inr (compute_sha256 content = expected_hash)), w'))"

fun except_False :: "exn + bool \<Rightarrow> exn + bool" where
  "except_False (Inl e) = Inr False"
| "except_False (Inr b) = Inr b"

definition verify_content_integrity ::
  "network \<Rightarrow> string \<Rightarrow> string \<Rightarrow> world \<Rightarrow> (exn + bool) \<times> world" where
  "verify_content_integrity net u expected_hash w =
     (case integrity_try net u expected_hash w of (r, w') \<Rightarrow> (except_False r, w'))"

subsection \<open>CatalogVerifier\<close>

record verifier =
  trusted_keys :: "(string \<times> string) list"

text \<open>\<open>s.endswith(suffix)\<close> on decoded values.\<close>

fun py_endswith :: "json \<Rightarrow> json \<Rightarrow> exn + bool" where
  "py_endswith (JStr s) (JStr suf) = Inr (endswith s suf)"
| "py_endswith (JStr s) _ = Inl TypeError"
| "py_endswith _ _ = Inl AttributeError"

text \<open>The loop of \<open>_extract_public_key_from_did\<close>.\<close>

fun did_scan :: "'k lib \<Rightarrow> json \<Rightarrow> json list \<Rightarrow> exn + 'k" where
  "did_scan L key_id [] = Inl (SecurityError (Msg ''No suitable public key found in DID document''))"
| "did_scan L key_id (method # ms) =
     and_then (if \<not> truthy key_id then Inr True
               else and_then (py_get method ''id'' (JStr '''')) (\<lambda>i. py_endswith i key_id))
       (\<lambda>hit. if hit
               then and_then (py_get method ''publicKeyJwk'' JNull)
                      (\<lambda>jwk. if truthy jwk then from_jwk L jwk else did_scan L key_id ms)
               else did_scan L key_id ms)"

definition extract_public_key_from_did :: "'k lib \<Rightarrow> json \<Rightarrow> json \<Rightarrow> exn + 'k" where
  "extract_public_key_from_did L did_document key_id =
     and_then (py_get did_document ''verificationMethod'' (JList [])) (\<lambda>vms.
     and_then (py_iter vms) (did_scan L key_id))"

text \<open>The loop of \<open>_get_key_from_jwks\<close>.\<close>

fun jwks_scan :: "'k lib \<Rightarrow> json \<Rightarrow> json list \<Rightarrow> exn + 'k" where
  "jwks_scan L key_id [] = Inl (SecurityError (Msg ''No suitable key found in JWKS''))"
| "jwks_scan L key_id (key # ks) =
     and_then (if \<not> truthy key_id then Inr True
               else and_then (py_get key ''kid'' JNull) (\<lambda>kid. Inr (py_eq kid key_id)))
       (\<lambda>hit. if hit then from_jwk L key else jwks_scan L key_id ks)"

definition jwks_handler :: "exn + 'k \<Rightarrow> exn + 'k" where
  "jwks_handler r = (case r of Inl e \<Rightarrow> Inl (SecurityError (MsgExn ''Could not retrieve JWKS'' e))
                     | Inr k \<Rightarrow> Inr k)"

definition get_key_from_jwks ::
  "'k lib \<Rightarrow> network \<Rightarrow> string \<Rightarrow> json \<Rightarrow> world \<Rightarrow> (exn + 'k) \<times> world" where
  "get_key_from_jwks L net catalog_url key_id w =
     (case send net (GET (urlparse_scheme L catalog_url @ ''://'' @ urlparse_netloc L catalog_url
                          @ ''/.well-known/jwks.json'')) w of
        (r, w') \<Rightarrow>
          (jwks_handler
             (and_then (raise_for_status r) (\<lambda>body.
              and_then (response_json L body) (\<lambda>jwks.
              and_then (py_get jwks ''keys'' (JList [])) (\<lambda>keys.
              and_then (py_iter keys) (jwks_scan L key_id))))), w'))"

definition load_public_key_from_string :: "'k lib \<Rightarrow> string \<Rightarrow> exn + 'k" where
  "load_public_key_from_string L key_string =
     (case load_pem_public_key L key_string of
        Inl e \<Rightarrow> Inl (SecurityError (MsgExn ''Invalid public key format'' e))
      | Inr k \<Rightarrow> Inr k)"

text \<open>\<open>key_id in self.trusted_keys\<close>: a list or a dict is unhashable.\<close>

fun in_trusted_keys :: "json \<Rightarrow> (string \<times> string) list \<Rightarrow> exn + string option" where
  "in_trusted_keys (JStr s) tk = Inr (map_of tk s)"
| "in_trusted_keys (JList xs) tk = Inl TypeError"
| "in_trusted_keys (JObj kvs) tk = Inl TypeError"
| "in_trusted_keys _ tk = Inr None"

definition key_handler :: "exn + 'k \<Rightarrow> exn + 'k" where
  "key_handler r =
     (case r of
        Inl e \<Rightarrow> Inl (SecurityError (MsgExn ''Could not retrieve public key for verification'' e))
      | Inr k \<Rightarrow> Inr k)"

text \<open>
  \<open>_get_public_key(catalog_url, key_id)\<close>. \<open>trusted_lookup\<close> is
  \<open>key_id and key_id in self.trusted_keys\<close>, with the stored PEM string when it holds.
\<close>

definition trusted_lookup :: "verifier \<Rightarrow> json \<Rightarrow> exn + string option" where
  "trusted_lookup v key_id =
     (if truthy key_id then in_trusted_keys key_id (trusted_keys v) else Inr None)"

definition get_public_key ::
  "'k lib \<Rightarrow> network \<Rightarrow> verifier \<Rightarrow> string \<Rightarrow> json \<Rightarrow> world \<Rightarrow> (exn + 'k) \<times> world" where
  "get_public_key L net v catalog_url key_id w =
     (case send net (GET (''https://'' @ urlparse_netloc L catalog_url @ ''/.well-known/did.json'')) w of
        (Fails e, w') \<Rightarrow> (key_handler (Inl e), w')
      | (Responds st body, w') \<Rightarrow>
          if st = 200
          then (key_handler (and_then (response_json L body)
                               (\<lambda>doc. extract_public_key_from_did L doc key_id)), w')
          else (case trusted_lookup v key_id of
                  Inl e \<Rightarrow> (key_handler (Inl e), w')
                | Inr (Some pem) \<Rightarrow> (key_handler (load_public_key_from_string L pem), w')
                | Inr None \<Rightarrow>
                    (case get_key_from_jwks L net catalog_url key_id w' of
                       (r, w'') \<Rightarrow> (key_handler r, w''))))"

definition verify_handler :: "exn \<Rightarrow> exn" where
  "verify_handler e =
     (if e = InvalidTokenError then SecurityError (MsgExn ''Catalog signature verification failed'' e)
      else SecurityError (MsgExn ''Catalog verification failed'' e))"

definition read_header :: "'k lib \<Rightarrow> string \<Rightarrow> exn + json \<times> json" where
  "read_header L signed_catalog =
     and_then (get_unverified_header L signed_catalog) (\<lambda>header.
     and_then (py_get header ''alg'' (JStr ''RS256'')) (\<lambda>algorithm.
     and_then (py_get header ''kid'' JNull) (\<lambda>key_id. Inr (algorithm, key_id))))"

definition verify_catalog ::
  "'k lib \<Rightarrow> network \<Rightarrow> verifier \<Rightarrow> string \<Rightarrow> string \<Rightarrow> world \<Rightarrow> (exn + json) \<times> world" where
  "verify_catalog L net v signed_catalog catalog_url w =
     (case read_header L signed_catalog of
        Inl e \<Rightarrow> (Inl (verify_handler e), w)
      | Inr (algorithm, key_id) \<Rightarrow>
          (case get_public_key L net v catalog_url key_id w of
             (Inl e, w') \<Rightarrow> (Inl (verify_handler e), w')
           | (Inr public_key, w') \<Rightarrow>
               (case jwt_decode L signed_catalog public_key (JList [algorithm]) of
                  Inl e \<Rightarrow> (Inl (verify_handler e), w')
                | Inr catalog \<Rightarrow> (Inr catalog, w'))))"

section \<open>discovery.py: Catalog\<close>

text \<open>
  \<open>catalog_data\<close> is \<open>self._catalog_data\<close> (\<open>JNull\<close> is Python's \<open>None\<close>),
  \<open>tools_cache\<close> is \<open>self._tools\<close> and \<open>cat_verifier\<close> is \<open>self._verifier\<close>.
\<close>

record catalog =
  url :: string
  verify_signatures :: bool
  catalog_data :: json
  tools_cache :: "tool list option"
  cat_verifier :: "verifier option"

definition Catalog_init :: "string \<Rightarrow> bool \<Rightarrow> catalog" where
  "Catalog_init u vs =
     \<lparr>url = u, verify_signatures = vs, catalog_data = JNull, tools_cache = None,
      cat_verifier = (if vs then Some \<lparr>trusted_keys = []\<rparr> else None)\<rparr>"

text \<open>The parsing step of \<open>fetch\<close>, once the body has been read.\<close>

definition parse_catalog ::
  "'k lib \<Rightarrow> network \<Rightarrow> catalog \<Rightarrow> string \<Rightarrow> world \<Rightarrow> (exn + json) \<times> world" where
  "parse_catalog L net cat content w =
     (if endswith (url cat) ''.json'' then (json_loads L content, w)
      else (case cat_verifier cat of
              Some v \<Rightarrow> verify_catalog L net v content (url cat) w
            | None \<Rightarrow> (json_loads L content, w)))"

text \<open>The \<open>logger.info\<close> line of \<open>fetch\<close>: \<open>len(self._catalog_data.get('tools', []))\<close>.\<close>

definition count_tools :: "json \<Rightarrow> exn + nat" where
  "count_tools d = and_then (py_get d ''tools'' (JList [])) py_len"

definition fetch ::
  "'k lib \<Rightarrow> network \<Rightarrow> catalog \<Rightarrow> world \<Rightarrow> (exn + json) \<times> catalog \<times> world" where
  "fetch L net cat w =
     (case send net (GET (url cat)) w of
        (r, w') \<Rightarrow>
          (case raise_for_status r of
             Inl e \<Rightarrow> (Inl e, cat, w')
           | Inr content \<Rightarrow>
               (case parse_catalog L net cat content w' of
                  (Inl e, w'') \<Rightarrow> (Inl e, cat, w'')
                | (Inr d, w'') \<Rightarrow>
                    (case count_tools d of
                       Inl e \<Rightarrow> (Inl e, cat\<lparr>catalog_data := d\<rparr>, w'')
                     | Inr n \<Rightarrow> (Inr d, cat\<lparr>catalog_data := d\<rparr>, w'')))))"

text \<open>\<open>Catalog._verify_content_integrity(url, expected_hash)\<close>, on the values of a record.\<close>

fun cat_integrity_try :: "network \<Rightarrow> json \<Rightarrow> json \<Rightarrow> world \<Rightarrow> (exn + bool) \<times> world" where
  "cat_integrity_try net (JStr u) expected_hash w =
     (case send net (GET u) w of
        (r, w') \<Rightarrow> (and_then (raise_for_status r)
                      (\<lambda>content. Inr (JStr (sha256_hexdigest content) = expected_hash)), w'))"
| "cat_integrity_try net _ expected_hash w = (Inl TypeError, w)"

definition cat_verify_content_integrity ::
  "network \<Rightarrow> json \<Rightarrow> json \<Rightarrow> world \<Rightarrow> (exn + bool) \<times> world" where
  "cat_verify_content_integrity net u expected_hash w =
     (case cat_integrity_try net u expected_hash w of (r, w') \<Rightarrow> (except_False r, w'))"

definition spec_reference :: "json \<Rightarrow> exn + json \<times> json" where
  "spec_reference tspec =
     and_then (py_get tspec ''spec_url'' JNull) (\<lambda>spec_url.
     and_then (py_get tspec ''spec_hash'' JNull) (\<lambda>expected_hash.
       Inr (spec_url, expected_hash)))"

text \<open>The loop of \<open>verify\<close>; it returns at the first record whose check fails.\<close>

fun verify_specs :: "network \<Rightarrow> json list \<Rightarrow> world \<Rightarrow> (exn + bool) \<times> world" where
  "verify_specs net [] w = (Inr True, w)"
| "verify_specs net (tspec # rest) w =
     (case spec_reference tspec of
        Inl e \<Rightarrow> (Inl e, w)
      | Inr (spec_url, expected_hash) \<Rightarrow>
          if truthy spec_url \<and> truthy expected_hash
          then (case cat_verify_content_integrity net spec_url expected_hash w of
                  (Inr True, w') \<Rightarrow> verify_specs net rest w'
                | (Inr False, w') \<Rightarrow> (Inr False, w')
                | (Inl e, w') \<Rightarrow> (Inl e, w'))
          else verify_specs net rest w)"

definition verify ::
  "'k lib \<Rightarrow> network \<Rightarrow> catalog \<Rightarrow> world \<Rightarrow> (exn + bool) \<times> catalog \<times> world" where
  "verify L net cat w =
     (if \<not> verify_signatures cat \<or> cat_verifier cat = None then (Inr True, cat, w)
      else (case (if \<not> truthy (catalog_data cat) then fetch L net cat w
                  else (Inr (catalog_data cat), cat, w)) of
              (Inl e, cat', w') \<Rightarrow> (Inl e, cat', w')
            | (Inr d, cat', w') \<Rightarrow>
                (case and_then (py_get (catalog_data cat') ''tools'' (JList [])) py_iter of
                   Inl e \<Rightarrow> (Inr False, cat', w')
                 | Inr specs \<Rightarrow>
                     (case verify_specs net specs w' of
                        (r, w'') \<Rightarrow> (except_False r, cat', w'')))))"

text \<open>\<open>[Tool(spec, self) for spec in self._catalog_data.get('tools', [])]\<close>\<close>

definition build_tools :: "json \<Rightarrow> exn + tool list" where
  "build_tools d =
     and_then (py_get d ''tools'' (JList [])) (\<lambda>ts.
     and_then (py_iter ts) (map_exn Tool_init))"

text \<open>One keyword filter of \<open>find\<close> applied to the current results.\<close>

fun description_contains :: "json \<Rightarrow> tool \<Rightarrow> exn + bool" where
  "description_contains (JStr v) t =
     (case description t of JStr d \<Rightarrow> Inr (contains (lower d) (lower v)) | _ \<Rightarrow> Inl AttributeError)"
| "description_contains _ t = Inl AttributeError"

definition apply_filter :: "string \<times> json \<Rightarrow> tool list \<Rightarrow> exn + tool list" where
  "apply_filter kv results =
     (if fst kv = ''description_contains'' then filter_exn (description_contains (snd kv)) results
      else if fst kv = ''has_examples''
      then Inr (filter (\<lambda>t. py_eq (JBool (truthy (examples t))) (snd kv)) results)
      else Inr results)"

fun apply_filters :: "(string \<times> json) list \<Rightarrow> tool list \<Rightarrow> exn + tool list" where
  "apply_filters [] results = Inr results"
| "apply_filters (kv # kvs) results = and_then (apply_filter kv results) (apply_filters kvs)"

definition by_capability :: "string option \<Rightarrow> tool list \<Rightarrow> exn + tool list" where
  "by_capability capability results =
     (case capability of
        None \<Rightarrow> Inr results
      | Some c \<Rightarrow> if c = [] then Inr results
                  else filter_exn (\<lambda>t. str_in c (capabilities t)) results)"

text \<open>\<open>self._tools\<close> after the \<open>if not self._tools:\<close> of \<open>find\<close>.\<close>

definition load_tools :: "catalog \<Rightarrow> exn + tool list" where
  "load_tools cat =
     (case tools_cache cat of
        None \<Rightarrow> build_tools (catalog_data cat)
      | Some ts \<Rightarrow> if ts = [] then build_tools (catalog_data cat) else Inr ts)"

definition find ::
  "catalog \<Rightarrow> string option \<Rightarrow> (string \<times> json) list \<Rightarrow> (exn + tool list) \<times> catalog" where
  "find cat capability filters =
     (if \<not> truthy (catalog_data cat) then (Inl RuntimeError, cat)
      else (case load_tools cat of
              Inl e \<Rightarrow> (Inl e, cat)
            | Inr ts \<Rightarrow>
                (and_then (by_capability capability ts) (apply_filters filters),
                 cat\<lparr>tools_cache := Some ts\<rparr>)))"

fun first_with_id :: "string \<Rightarrow> tool list \<Rightarrow> tool option" where
  "first_with_id i [] = None"
| "first_with_id i (t # ts) = (if tool_id t = JStr i then Some t else first_with_id i ts)"

definition get_tool :: "catalog \<Rightarrow> string \<Rightarrow> (exn + tool option) \<times> catalog" where
  "get_tool cat i =
     (case find cat None [] of
        (Inl e, cat') \<Rightarrow> (Inl e, cat')
      | (Inr ts, cat') \<Rightarrow> (Inr (first_with_id i ts), cat'))"

section \<open>An example environment\<close>

text \<open>
  A concrete library and network for the closed examples below. Bodies are short tags:
  \<open>example_loads\<close> decodes the ones the examples use and rejects everything else, keys
  are strings, and the network answers by URL.
\<close>

definition example_catalog :: json where
  "example_catalog =
     JObj [(''tools'', JList [JObj [(''name'', JStr ''a''), (''description'', JStr ''first'')],
                              JObj [(''operationId'', JStr ''a'')]])]"

definition example_spec_catalog :: json where
  "example_spec_catalog =
     JObj [(''tools'', JList [JObj [(''name'', JStr ''a''),
                                    (''spec_url'', JStr ''http://example.com/spec.yaml''),
                                    (''spec_hash'', JStr ''00'')]])]"

definition example_error_envelope :: json where
  "example_error_envelope =
     JObj [(''result'', JObj [(''ok'', JBool True)]),
           (''error'', JObj [(''code'', JInt (- 32603)), (''message'', JStr ''failed'')])]"

definition example_did_document :: json where
  "example_did_document = JObj [(''verificationMethod'', JList [])]"

definition example_loads :: "string \<Rightarrow> exn + json" where
  "example_loads s =
     (if s = ''{}'' then Inr (JObj [])
      else if s = ''catalog'' then Inr example_catalog
      else if s = ''spec-catalog'' then Inr example_spec_catalog
      else if s = ''both'' then Inr example_error_envelope
      else if s = ''did'' then Inr example_did_document
      else Inl JSONDecodeError)"

definition example_lib :: "string lib" where
  "example_lib =
     \<lparr>json_loads = example_loads,
      response_json = example_loads,
      py_str = (\<lambda>j. case j of JStr s \<Rightarrow> s | _ \<Rightarrow> ''?''),
      urljoin = (\<lambda>base path. base @ path),
      urlparse_scheme = (\<lambda>u. ''https''),
      urlparse_netloc = (\<lambda>u. ''example.com''),
      get_unverified_header = (\<lambda>s. if s = ''jws'' then Inr (JObj [(''kid'', JStr ''key1'')])
                                    else Inl InvalidTokenError),
      jwt_decode = (\<lambda>s k algs. if s = ''jws'' \<and> k = ''pem1'' then Inr example_catalog
                                else Inl InvalidTokenError),
      from_jwk = (\<lambda>j. Inr ''jwk''),
      load_pem_public_key = (\<lambda>s. Inr s)\<rparr>"

definition example_get :: "string \<Rightarrow> http_result" where
  "example_get u =
     (if u = ''http://example.com/catalog.json'' then Responds 200 ''catalog''
      else if u = ''http://example.com/empty.json'' then Responds 200 ''{}''
      else if u = ''http://example.com/specs'' then Responds 200 ''spec-catalog''
      else if u = ''http://example.com/spec.yaml'' then Responds 200 ''openapi''
      else if u = ''https://example.com/.well-known/did.json'' then Responds 200 ''did''
      else Responds 404 [])"

definition example_net :: network where
  "example_net w r =
     (case r of
        GET u \<Rightarrow> example_get u
      | POST u d \<Rightarrow> if u = ''http://a/mcp'' then Responds 200 ''{}''
                    else if u = ''http://b/mcp'' then Responds 200 ''both''
                    else Fails ClientError)"

definition example_tool :: tool where
  "example_tool =
     \<lparr>tool_spec = JObj [(''name'', JStr ''a'')], tool_id = JStr ''a'', description = JStr [],
      parameters = JObj [], examples = JList [], server_url = JStr ''http://a'',
      capabilities = JList []\<rparr>"

section \<open>Content integrity in the words of the specification\<close>

text \<open>
  For comparison with \<open>verify\<close>: a tool record is in order when it carries no reference
  (no non-empty \<open>spec_url\<close> with a non-empty \<open>spec_hash\<close>), or when the document at its
  \<open>spec_url\<close> can be fetched and its digest equals the recorded one. \<open>get\<close> is what the
  network answers for a URL.
\<close>

definition spec_record_ok :: "(string \<Rightarrow> http_result) \<Rightarrow> json \<Rightarrow> bool" where
  "spec_record_ok get tspec =
     (case spec_reference tspec of
        Inl e \<Rightarrow> False
      | Inr (u, h) \<Rightarrow>
          if truthy u \<and> truthy h
          then (case u of
                  JStr us \<Rightarrow> (case raise_for_status (get us) of
                                Inl e \<Rightarrow> False
                              | Inr content \<Rightarrow> JStr (sha256_hexdigest content) = h)
                | _ \<Rightarrow> False)
          else True)"

section \<open>security.py: CatalogSigner, on an object store\<close>

text \<open>
  \<open>sign_catalog\<close> receives a reference to the caller's dict and \<open>dict.copy()\<close> copies one
  level only, so dicts and lists are objects in a store here: a value is a scalar or the
  address of an object, and the store is the list of the objects allocated so far.
\<close>

datatype pyval = PNone | PBool bool | PInt int | PStr string | PRef nat

datatype pyobj = PDict "(string \<times> pyval) list" | PList "pyval list"

type_synonym store = "pyobj list"

definition lookup :: "store \<Rightarrow> nat \<Rightarrow> pyobj option" where
  "lookup h a = (if a < length h then Some (h ! a) else None)"

fun ptruthy :: "store \<Rightarrow> pyval \<Rightarrow> bool" where
  "ptruthy h PNone = False"
| "ptruthy h (PBool b) = b"
| "ptruthy h (PInt i) = (i \<noteq> 0)"
| "ptruthy h (PStr s) = (s \<noteq> [])"
| "ptruthy h (PRef a) =
     (case lookup h a of Some (PDict kvs) \<Rightarrow> kvs \<noteq> [] | Some (PList xs) \<Rightarrow> xs \<noteq> []
      | None \<Rightarrow> False)"

text \<open>\<open>d[k] = v\<close>: an existing key keeps its place, a new key goes last.\<close>

fun dict_set :: "(string \<times> pyval) list \<Rightarrow> string \<Rightarrow> pyval \<Rightarrow> (string \<times> pyval) list" where
  "dict_set [] k v = [(k, v)]"
| "dict_set (p # ps) k v = (if fst p = k then (k, v) # ps else p # dict_set ps k v)"

text \<open>\<open>for tool in v\<close> on a stored value.\<close>

fun obj_iter :: "store \<Rightarrow> pyval \<Rightarrow> exn + pyval list" where
  "obj_iter h (PRef a) =
     (case lookup h a of Some (PList xs) \<Rightarrow> Inr xs
      | Some (PDict kvs) \<Rightarrow> Inr (map (\<lambda>kv. PStr (fst kv)) kvs)
      | None \<Rightarrow> Inl TypeError)"
| "obj_iter h (PStr s) = Inr (map (\<lambda>c. PStr [c]) s)"
| "obj_iter h _ = Inl TypeError"

text \<open>\<open>_compute_placeholder_hash(url)\<close>: \<open>url.encode()\<close> needs a string.\<close>

fun compute_placeholder_hash :: "pyval \<Rightarrow> exn + string" where
  "compute_placeholder_hash (PStr u) = Inr (sha256_hexdigest u)"
| "compute_placeholder_hash _ = Inl AttributeError"

text \<open>
  The loop of \<open>_add_content_hashes\<close> over the elements of the tools list. An assignment
  \<open>tool['spec_hash'] = ...\<close> writes to the object the element refers to; what was written
  before an exception stays written.
\<close>

fun add_hashes :: "store \<Rightarrow> pyval list \<Rightarrow> exn option \<times> store" where
  "add_hashes h [] = (None, h)"
| "add_hashes h (PRef a # ts) =
     (case lookup h a of
        Some (PDict kvs) \<Rightarrow>
          (let spec_url = (case map_of kvs ''spec_url'' of Some v \<Rightarrow> v | None \<Rightarrow> PNone)
           in if ptruthy h spec_url \<and> map_of kvs ''spec_hash'' = None
              then (case compute_placeholder_hash spec_url of
                      Inl e \<Rightarrow> (Some e, h)
                    | Inr d \<Rightarrow> add_hashes (h[a := PDict (dict_set kvs ''spec_hash'' (PStr d))]) ts)
              else add_hashes h ts)
      | _ \<Rightarrow> (Some AttributeError, h))"
| "add_hashes h (_ # ts) = (Some AttributeError, h)"

text \<open>
  \<open>_add_content_hashes(catalog)\<close>: \<open>catalog.copy()\<close> allocates a new dict with the same
  entries, hence the same references; the result is the address of the copy.
\<close>

definition add_content_hashes :: "store \<Rightarrow> pyval \<Rightarrow> (exn + pyval) \<times> store" where
  "add_content_hashes h catalog =
     (case catalog of
        PRef a \<Rightarrow>
          (case lookup h a of
             Some (PDict kvs) \<Rightarrow>
               (let h1 = h @ [PDict kvs]; catalog_copy = PRef (length h)
                in case map_of kvs ''tools'' of
                     None \<Rightarrow> (Inr catalog_copy, h1)
                   | Some ts \<Rightarrow>
                       (case obj_iter h1 ts of
                          Inl e \<Rightarrow> (Inl e, h1)
                        | Inr tools \<Rightarrow>
                            (case add_hashes h1 tools of
                               (Some e, h2) \<Rightarrow> (Inl e, h2)
                             | (None, h2) \<Rightarrow> (Inr catalog_copy, h2))))
           | Some (PList xs) \<Rightarrow> (Inl AttributeError, h @ [PList xs])
           | None \<Rightarrow> (Inl AttributeError, h))
      | _ \<Rightarrow> (Inl AttributeError, h))"

text \<open>
  The document a value stands for, read through the store to a given depth; \<open>None\<close> when
  the depth does not suffice, as for a cyclic structure, which \<open>json.dumps\<close> rejects.
\<close>

fun all_some :: "'a option list \<Rightarrow> 'a list option" where
  "all_some [] = Some []"
| "all_some (None # xs) = None"
| "all_some (Some x # xs) = map_option ((#) x) (all_some xs)"

fun reify :: "nat \<Rightarrow> store \<Rightarrow> pyval \<Rightarrow> json option" where
  "reify n h PNone = Some JNull"
| "reify n h (PBool b) = Some (JBool b)"
| "reify n h (PInt i) = Some (JInt i)"
| "reify n h (PStr s) = Some (JStr s)"
| "reify 0 h (PRef a) = None"
| "reify (Suc n) h (PRef a) =
     (case lookup h a of
        None \<Rightarrow> None
      | Some (PList xs) \<Rightarrow> map_option JList (all_some (map (reify n h) xs))
      | Some (PDict kvs) \<Rightarrow>
          map_option JObj
            (all_some (map (\<lambda>kv. map_option (Pair (fst kv)) (reify n h (snd kv))) kvs)))"

definition document :: "store \<Rightarrow> pyval \<Rightarrow> json option" where
  "document h v = reify (Suc (length h)) h v"

record 'sk signer =
  private_key :: 'sk
  signer_key_id :: "string option"

definition jws_headers :: "'sk signer \<Rightarrow> json" where
  "jws_headers s =
     JObj ([(''alg'', JStr ''RS256''), (''typ'', JStr ''JWT'')] @
           (case signer_key_id s of None \<Rightarrow> [] | Some k \<Rightarrow> if k = [] then [] else [(''kid'', JStr k)]))"

text \<open>
  \<open>sign_catalog(catalog)\<close>; \<open>encode payload key headers\<close> is \<open>jwt.encode\<close> with
  \<open>algorithm="RS256"\<close>. The \<open>except\<close> clause logs and re-raises.
\<close>

definition sign_catalog ::
  "(json \<Rightarrow> 'sk \<Rightarrow> json \<Rightarrow> exn + string) \<Rightarrow> 'sk signer \<Rightarrow> store \<Rightarrow> pyval \<Rightarrow> (exn + string) \<times> store" where
  "sign_catalog encode s h catalog =
     (case add_content_hashes h catalog of
        (Inl e, h') \<Rightarrow> (Inl e, h')
      | (Inr catalog_with_hashes, h') \<Rightarrow>
          (case document h' catalog_with_hashes of
             None \<Rightarrow> (Inl ValueError, h')
           | Some payload \<Rightarrow> (encode payload (private_key s) (jws_headers s), h')))"

text \<open>The catalog of the repository's signing tests, at address 0.\<close>

definition example_store :: store where
  "example_store =
     [PDict [(''version'', PStr ''1.0''), (''tools'', PRef 1)],
      PList [PRef 2],
      PDict [(''name'', PStr ''test_tool''), (''spec_url'', PStr ''http://example.com/spec.yaml'')]]"

definition example_encode :: "json \<Rightarrow> string \<Rightarrow> json \<Rightarrow> exn + string" where
  "example_encode payload key headers = Inr ''signed.jwt.token''"

section \<open>Properties\<close>

subsection \<open>Helper facts\<close>

lemma and_then_simps [simp]:
  "and_then (Inl e) f = Inl e"
  "and_then (Inr x) f = f x"
  by (simp_all add: and_then_def)

lemma and_then_Inr_iff:
  "and_then m f = Inr y \<longleftrightarrow> (\<exists>x. m = Inr x \<and> f x = Inr y)"
  by (cases m) simp_all

lemma first_with_id_find:
  "first_with_id i ts = List.find (\<lambda>t. tool_id t = JStr i) ts"
  by (induction ts) simp_all

lemma find_not_fetched:
  "\<not> truthy (catalog_data cat) \<Longrightarrow> find cat capability filters = (Inl RuntimeError, cat)"
  by (simp add: find_def)

lemma get_tool_not_fetched:
  "\<not> truthy (catalog_data cat) \<Longrightarrow> get_tool cat i = (Inl RuntimeError, cat)"
  by (simp add: get_tool_def find_def)

lemma str_in_dict: "str_in k (JObj kvs) = Inr (map_of kvs k \<noteq> None)"
  by (simp add: map_of_eq_None_iff)

subsection \<open>Claims\<close>

text \<open>
  C9. A tool whose endpoint (\<open>server_url\<close>) is the empty string fails \<open>call\<close> with
  \<open>ValueError\<close> (the code's configuration error) and the log of network requests is
  unchanged: no request is framed and no transport is set up, for every library, network,
  argument dict and world.
\<close>

theorem Tool_call_empty_endpoint:
  "Tool_call L net (t\<lparr>server_url := JStr ''''\<rparr>) params pid w = (Inl ValueError, w)"
  by (simp add: Tool_call_def)

theorem Tool_call_empty_endpoint_witness:
  "Tool_call example_lib example_net (example_tool\<lparr>server_url := JStr ''''\<rparr>) (JObj []) 0 []
     = (Inl ValueError, [])"
  using Tool_call_empty_endpoint [of example_lib example_net example_tool "JObj []" 0 "[]"]
  by simp

text \<open>
  C10. A tool built from a catalog entry (a dict) takes its id from the entry's \<open>name\<close>,
  else from its \<open>operationId\<close>, else it is the empty string. \<open>get_tool\<close> returns the
  first tool that \<open>find()\<close> lists whose derived id equals the argument. The entries
  \<open>{name: a}\<close> and \<open>{operationId: a}\<close> differ and both get the id \<open>a\<close>:
  \<open>find\<close> lists both and \<open>get_tool\<close> returns the first.
\<close>

theorem tool_id_from_name_or_operationId:
  "(\<forall>kvs t. Tool_init (JObj kvs) = Inr t \<longrightarrow>
      tool_id t = (case map_of kvs ''name'' of Some v \<Rightarrow> v
                   | None \<Rightarrow> (case map_of kvs ''operationId'' of Some v \<Rightarrow> v
                               | None \<Rightarrow> JStr '''')))
   \<and> (\<forall>cat cat' ts i. find cat None [] = (Inr ts, cat') \<longrightarrow>
        get_tool cat i = (Inr (List.find (\<lambda>t. tool_id t = JStr i) ts), cat'))
   \<and> (\<exists>t1 t2 cat'.
        find ((Catalog_init ''u'' False)\<lparr>catalog_data := example_catalog\<rparr>) None []
          = (Inr [t1, t2], cat')
        \<and> tool_spec t1 \<noteq> tool_spec t2
        \<and> tool_id t1 = JStr ''a'' \<and> tool_id t2 = JStr ''a''
        \<and> get_tool ((Catalog_init ''u'' False)\<lparr>catalog_data := example_catalog\<rparr>) ''a''
            = (Inr (Some t1), cat'))"
proof (intro conjI allI impI)
  fix kvs t
  assume "Tool_init (JObj kvs) = Inr t"
  then show "tool_id t = (case map_of kvs ''name'' of Some v \<Rightarrow> v
                   | None \<Rightarrow> (case map_of kvs ''operationId'' of Some v \<Rightarrow> v
                               | None \<Rightarrow> JStr ''''))"
    by (auto simp: Tool_init_def and_then_Inr_iff split: option.splits)
next
  fix cat cat' ts i
  assume "find cat None [] = (Inr ts, cat')"
  then show "get_tool cat i = (Inr (List.find (\<lambda>t. tool_id t = JStr i) ts), cat')"
    by (simp add: get_tool_def first_with_id_find)
next
  show "\<exists>t1 t2 cat'.
        find ((Catalog_init ''u'' False)\<lparr>catalog_data := example_catalog\<rparr>) None []
          = (Inr [t1, t2], cat')
        \<and> tool_spec t1 \<noteq> tool_spec t2
        \<and> tool_id t1 = JStr ''a'' \<and> tool_id t2 = JStr ''a''
        \<and> get_tool ((Catalog_init ''u'' False)\<lparr>catalog_data := example_catalog\<rparr>) ''a''
            = (Inr (Some t1), cat')"
    by (simp add: get_tool_def find_def load_tools_def build_tools_def Catalog_init_def
        example_catalog_def Tool_init_def x_mcp_get_def by_capability_def)
qed

theorem tool_id_from_name_or_operationId_witness:
  "Tool_init (JObj [(''operationId'', JStr ''get_user'')])
     = Inr \<lparr>tool_spec = JObj [(''operationId'', JStr ''get_user'')], tool_id = JStr ''get_user'',
            description = JStr [], parameters = JObj [], examples = JList [],
            server_url = JStr [], capabilities = JList []\<rparr>
   \<and> tool_id \<lparr>tool_spec = JObj [(''operationId'', JStr ''get_user'')], tool_id = JStr ''get_user'',
            description = JStr [], parameters = JObj [], examples = JList [],
            server_url = JStr [], capabilities = JList []\<rparr> = JStr ''get_user''"
proof -
  let ?t = "\<lparr>tool_spec = JObj [(''operationId'', JStr ''get_user'')], tool_id = JStr ''get_user'',
            description = JStr [], parameters = JObj [], examples = JList [],
            server_url = JStr [], capabilities = JList []\<rparr>"
  have h: "Tool_init (JObj [(''operationId'', JStr ''get_user'')]) = Inr ?t"
    by (simp add: Tool_init_def x_mcp_get_def)
  from tool_id_from_name_or_operationId
  have "tool_id ?t = (case map_of [(''operationId'', JStr ''get_user'')] ''name'' of Some v \<Rightarrow> v
                   | None \<Rightarrow> (case map_of [(''operationId'', JStr ''get_user'')] ''operationId'' of
                                 Some v \<Rightarrow> v | None \<Rightarrow> JStr ''''))"
    using h by blast
  with h show ?thesis by simp
qed

text \<open>
  C7. \<open>verify_content_integrity\<close> fails closed: for every URL, expected digest, network and
  world it returns a boolean and never raises; it returns \<open>False\<close> when the request or
  \<open>raise_for_status\<close> fails and when the digest of the body differs from the expected
  one, and \<open>True\<close> only when the digests are equal.
\<close>

theorem verify_content_integrity_fails_closed:
  "(\<exists>b. fst (verify_content_integrity net u h w) = Inr b)
   \<and> (\<forall>e. raise_for_status (net w (GET u)) = Inl e \<longrightarrow>
         fst (verify_content_integrity net u h w) = Inr False)
   \<and> (\<forall>content. raise_for_status (net w (GET u)) = Inr content \<longrightarrow>
         fst (verify_content_integrity net u h w) = Inr (compute_sha256 content = h))"
  by (cases "raise_for_status (net w (GET u))")
     (auto simp: verify_content_integrity_def integrity_try_def send_def)

theorem verify_content_integrity_fails_closed_witness:
  "raise_for_status (example_net [] (GET ''http://example.com/missing'')) = Inl ClientError
   \<and> fst (verify_content_integrity example_net ''http://example.com/missing'' ''00'' [])
       = Inr False"
proof -
  have h: "raise_for_status (example_net [] (GET ''http://example.com/missing'')) = Inl ClientError"
    by (simp add: example_net_def example_get_def)
  with verify_content_integrity_fails_closed
    [of example_net "''http://example.com/missing''" "''00''" "[]"]
  show ?thesis by blast
qed

text \<open>
  C8 fails on the code once the fetched document is the empty dict: \<open>fetch\<close> succeeds
  and caches \<open>{}\<close>, and \<open>find\<close> and \<open>get_tool\<close> still raise \<open>RuntimeError\<close>
  ("Catalog not fetched"), because \<open>not self._catalog_data\<close> is also true of \<open>{}\<close>.
\<close>

theorem find_after_fetch_of_empty_catalog:
  "fetch example_lib example_net (Catalog_init ''http://example.com/empty.json'' False) []
     = (Inr (JObj []),
        (Catalog_init ''http://example.com/empty.json'' False)\<lparr>catalog_data := JObj []\<rparr>,
        [GET ''http://example.com/empty.json''])
   \<and> find ((Catalog_init ''http://example.com/empty.json'' False)\<lparr>catalog_data := JObj []\<rparr>)
         None [] =
       (Inl RuntimeError,
        (Catalog_init ''http://example.com/empty.json'' False)\<lparr>catalog_data := JObj []\<rparr>)
   \<and> get_tool ((Catalog_init ''http://example.com/empty.json'' False)\<lparr>catalog_data := JObj []\<rparr>)
         ''a'' =
       (Inl RuntimeError,
        (Catalog_init ''http://example.com/empty.json'' False)\<lparr>catalog_data := JObj []\<rparr>)"
  by (simp add: fetch_def send_def example_net_def example_get_def parse_catalog_def
      Catalog_init_def endswith_def example_lib_def example_loads_def count_tools_def
      find_def get_tool_def)


text \<open>
  C4 fails on the code for an envelope with neither field: \<open>call_tool\<close> returns the empty
  dict. An envelope with both fields raises the same \<open>MCPError\<close> as one with the error
  alone; the code has no separate protocol-violation error.
\<close>

theorem call_tool_envelope_without_fields:
  "fst (call_tool example_lib example_net \<lparr>endpoint = ''http://a'', timeout = 30\<rparr>
          example_tool (JObj []) 0 []) = Inr (JObj [])
   \<and> fst (call_tool example_lib example_net \<lparr>endpoint = ''http://b'', timeout = 30\<rparr>
          example_tool (JObj []) 0 [])
       = Inl (MCPError (MsgExn ''Unexpected error''
                (MCPError (MsgMCP (JInt (- 32603)) (JStr ''failed'')))))"
  by (simp add: call_tool_def send_def example_net_def example_lib_def example_loads_def
      interpret_result_def raise_mcp_error_def mcp_handler_def example_error_envelope_def)

text \<open>
  C4 as amended. When the server answers the request with a status below 400 and a body
  that decodes to a dict: if the dict has an \<open>error\<close> entry that is a dict, the call raises
  \<open>MCPError\<close> carrying its \<open>code\<close> and \<open>message\<close> (or their defaults), whether or not a
  \<open>result\<close> entry is present; if it has no \<open>error\<close> entry, the call returns the
  \<open>result\<close> entry, or the empty dict when there is none. In both cases exactly one
  request has been sent: there is no retry.
\<close>

theorem call_tool_envelope:
  assumes "net w (POST (urljoin L (endpoint c) ''/mcp'') (mcp_request L t params pid))
             = Responds st body"
    and "st < 400"
    and "response_json L body = Inr (JObj env)"
  shows "(\<forall>err. map_of env ''error'' = Some (JObj err) \<longrightarrow>
            call_tool L net c t params pid w =
              (Inl (MCPError (MsgExn ''Unexpected error'' (MCPError (MsgMCP
                 (case map_of err ''code'' of Some v \<Rightarrow> v | None \<Rightarrow> JStr ''unknown'')
                 (case map_of err ''message'' of Some v \<Rightarrow> v | None \<Rightarrow> JStr ''Unknown error''))))),
               w @ [POST (urljoin L (endpoint c) ''/mcp'') (mcp_request L t params pid)]))
       \<and> (map_of env ''error'' = None \<longrightarrow>
            call_tool L net c t params pid w =
              (Inr (case map_of env ''result'' of Some v \<Rightarrow> v | None \<Rightarrow> JObj []),
               w @ [POST (urljoin L (endpoint c) ''/mcp'') (mcp_request L t params pid)]))"
  using assms
  by (auto simp: call_tool_def send_def interpret_result_def str_in_dict raise_mcp_error_def
      mcp_handler_def simp del: str_in.simps)

theorem call_tool_envelope_witness:
  "call_tool example_lib example_net \<lparr>endpoint = ''http://b'', timeout = 30\<rparr>
      example_tool (JObj []) 0 []
     = (Inl (MCPError (MsgExn ''Unexpected error''
               (MCPError (MsgMCP (JInt (- 32603)) (JStr ''failed''))))),
        [POST ''http://b/mcp'' (mcp_request example_lib example_tool (JObj []) 0)])"
proof -
  let ?c = "\<lparr>endpoint = ''http://b'', timeout = 30\<rparr>"
  let ?env = "[(''result'', JObj [(''ok'', JBool True)]),
               (''error'', JObj [(''code'', JInt (- 32603)), (''message'', JStr ''failed'')])]"
  have u: "urljoin example_lib ''http://b'' ''/mcp'' = ''http://b/mcp''"
    by (simp add: example_lib_def)
  have a: "example_net [] (POST (urljoin example_lib (endpoint ?c) ''/mcp'')
              (mcp_request example_lib example_tool (JObj []) 0)) = Responds 200 ''both''"
    by (simp add: u example_net_def)
  have b: "(200::nat) < 400" by simp
  have c: "response_json example_lib ''both'' = Inr (JObj ?env)"
    by (simp add: example_lib_def example_loads_def example_error_envelope_def)
  have d: "map_of ?env ''error''
             = Some (JObj [(''code'', JInt (- 32603)), (''message'', JStr ''failed'')])"
    by simp
  from call_tool_envelope [where net = example_net and w = "[]" and L = example_lib and c = ?c
      and t = example_tool and params = "JObj []" and pid = 0 and env = ?env, OF a b c] d u
  show ?thesis by simp
qed


text \<open>
  C2 fails on the code: a DID document that answers with status 200 and holds no suitable
  key ends the resolution with \<open>SecurityError\<close>. The trust store, which holds the key,
  and the JWKS endpoint are not tried: only the DID request is in the log.
\<close>

theorem get_public_key_no_fall_through:
  "get_public_key example_lib example_net \<lparr>trusted_keys = [(''key1'', ''pem1'')]\<rparr>
      ''http://example.com/catalog'' (JStr ''key1'') []
     = (Inl (SecurityError (MsgExn ''Could not retrieve public key for verification''
               (SecurityError (Msg ''No suitable public key found in DID document'')))),
        [GET ''https://example.com/.well-known/did.json''])
   \<and> trusted_lookup \<lparr>trusted_keys = [(''key1'', ''pem1'')]\<rparr> (JStr ''key1'') = Inr (Some ''pem1'')
   \<and> load_public_key_from_string example_lib ''pem1'' = Inr ''pem1''"
  by (simp add: get_public_key_def send_def example_net_def example_get_def example_lib_def
      example_loads_def example_did_document_def extract_public_key_from_did_def key_handler_def
      trusted_lookup_def load_public_key_from_string_def)

text \<open>
  C2 as amended. Key resolution asks for the origin's \<open>did.json\<close> first. If that request
  raises, resolution fails. If it answers with status 200, the DID document alone decides:
  its key is returned, or resolution fails, without trying the other strategies. Only when
  it answers with another status is the trust store consulted: a key id found there decides
  (the stored key, or failure when it does not load), and otherwise the JWKS endpoint
  decides. Every failure is a \<open>SecurityError\<close>; otherwise a key is returned.
\<close>

theorem get_public_key_chain:
  "(\<forall>e. net w (GET (''https://'' @ urlparse_netloc L u @ ''/.well-known/did.json'')) = Fails e \<longrightarrow>
      get_public_key L net v u key_id w =
        (Inl (SecurityError (MsgExn ''Could not retrieve public key for verification'' e)),
         w @ [GET (''https://'' @ urlparse_netloc L u @ ''/.well-known/did.json'')]))
   \<and> (\<forall>body. net w (GET (''https://'' @ urlparse_netloc L u @ ''/.well-known/did.json''))
                = Responds 200 body \<longrightarrow>
      get_public_key L net v u key_id w =
        (key_handler (and_then (response_json L body)
                        (\<lambda>doc. extract_public_key_from_did L doc key_id)),
         w @ [GET (''https://'' @ urlparse_netloc L u @ ''/.well-known/did.json'')]))
   \<and> (\<forall>st body pem. net w (GET (''https://'' @ urlparse_netloc L u @ ''/.well-known/did.json''))
                = Responds st body \<and> st \<noteq> 200 \<and> trusted_lookup v key_id = Inr (Some pem) \<longrightarrow>
      get_public_key L net v u key_id w =
        (key_handler (load_public_key_from_string L pem),
         w @ [GET (''https://'' @ urlparse_netloc L u @ ''/.well-known/did.json'')]))
   \<and> (\<forall>st body. net w (GET (''https://'' @ urlparse_netloc L u @ ''/.well-known/did.json''))
                = Responds st body \<and> st \<noteq> 200 \<and> trusted_lookup v key_id = Inr None \<longrightarrow>
      get_public_key L net v u key_id w =
        (key_handler (fst (get_key_from_jwks L net u key_id
            (w @ [GET (''https://'' @ urlparse_netloc L u @ ''/.well-known/did.json'')]))),
         w @ [GET (''https://'' @ urlparse_netloc L u @ ''/.well-known/did.json''),
              GET (urlparse_scheme L u @ ''://'' @ urlparse_netloc L u @ ''/.well-known/jwks.json'')]))
   \<and> (\<forall>e. fst (get_public_key L net v u key_id w) = Inl e \<longrightarrow> (\<exists>m. e = SecurityError m))"
proof (intro conjI allI impI)
  fix e
  assume "fst (get_public_key L net v u key_id w) = Inl e"
  moreover have "\<And>r. key_handler r = Inl e \<Longrightarrow> \<exists>m. e = SecurityError m"
    by (auto simp: key_handler_def split: sum.splits)
  ultimately show "\<exists>m. e = SecurityError m"
    by (auto simp: get_public_key_def send_def split: http_result.splits if_splits sum.splits
        option.splits prod.splits)
qed (auto simp: get_public_key_def send_def get_key_from_jwks_def key_handler_def
      split: prod.splits)

theorem get_public_key_chain_witness:
  "example_net [] (GET (''https://'' @ urlparse_netloc example_lib ''http://example.com/catalog''
                         @ ''/.well-known/did.json'')) = Responds 200 ''did''
   \<and> get_public_key example_lib example_net \<lparr>trusted_keys = []\<rparr>
         ''http://example.com/catalog'' JNull []
       = (key_handler (and_then (response_json example_lib ''did'')
                         (\<lambda>doc. extract_public_key_from_did example_lib doc JNull)),
          [GET ''https://example.com/.well-known/did.json''])"
proof -
  have h: "example_net [] (GET (''https://'' @ urlparse_netloc example_lib ''http://example.com/catalog''
                         @ ''/.well-known/did.json'')) = Responds 200 ''did''"
    by (simp add: example_net_def example_get_def example_lib_def)
  have n: "urlparse_netloc example_lib ''http://example.com/catalog'' = ''example.com''"
    by (simp add: example_lib_def)
  from get_public_key_chain [where net = example_net and w = "[]" and L = example_lib
      and u = "''http://example.com/catalog''" and v = "\<lparr>trusted_keys = []\<rparr>" and key_id = JNull]
    h
  have "get_public_key example_lib example_net \<lparr>trusted_keys = []\<rparr>
         ''http://example.com/catalog'' JNull []
       = (key_handler (and_then (response_json example_lib ''did'')
                         (\<lambda>doc. extract_public_key_from_did example_lib doc JNull)),
          [] @ [GET (''https://'' @ urlparse_netloc example_lib ''http://example.com/catalog''
                         @ ''/.well-known/did.json'')])"
    by blast
  with h n show ?thesis by simp
qed


subsection \<open>The digest has 64 characters\<close>

lemma length_round256: "length (round256 s kw) = length s"
  by (cases "(s, kw)" rule: round256.cases) (simp_all add: Let_def)

lemma length_foldl_round256: "length (foldl round256 s xs) = length s"
  by (induction xs arbitrary: s) (simp_all add: length_round256)

lemma length_compress: "length (compress s blk) = length s"
  by (simp add: compress_def Let_def length_foldl_round256)

lemma length_foldl_compress: "length (foldl compress s bs) = length s"
  by (induction bs arbitrary: s) (simp_all add: length_compress)

lemma length_hex32: "length (hex32 w) = 8"
  by (simp add: hex32_def)

lemma length_concat_hex32: "length (concat (map hex32 ws)) = 8 * length ws"
  by (induction ws) (simp_all add: length_hex32)

lemma length_sha256_hexdigest: "length (sha256_hexdigest m) = 64"
  by (simp add: sha256_hexdigest_def Let_def length_concat_hex32 length_foldl_compress H256_def)


lemma sha256_hexdigest_neq: "length s \<noteq> 64 \<Longrightarrow> sha256_hexdigest m \<noteq> s"
  using length_sha256_hexdigest [of m] by auto

subsection \<open>Catalog fetch and verification\<close>

text \<open>
  C1 fails on the code. A catalog created with signature verification enabled whose URL
  ends in \<open>.json\<close> accepts the unsigned document it fetches. And with verification
  disabled, \<open>verify\<close> answers \<open>True\<close> for a catalog whose record carries a \<open>spec_url\<close> and
  a \<open>spec_hash\<close> without any request: the log stays empty.
\<close>

theorem fetch_accepts_unsigned_json:
  "verify_signatures (Catalog_init ''http://example.com/catalog.json'' True)
   \<and> fst (fetch example_lib example_net (Catalog_init ''http://example.com/catalog.json'' True) [])
       = Inr example_catalog
   \<and> verify example_lib example_net
        ((Catalog_init ''http://example.com/specs'' False)\<lparr>catalog_data := example_spec_catalog\<rparr>) []
       = (Inr True,
          (Catalog_init ''http://example.com/specs'' False)\<lparr>catalog_data := example_spec_catalog\<rparr>,
          [])"
  by (simp add: fetch_def send_def example_net_def example_get_def parse_catalog_def
      Catalog_init_def endswith_def example_lib_def example_loads_def count_tools_def
      example_catalog_def verify_def)

text \<open>
  C1 as amended. An unsigned plain-JSON catalog is accepted whenever the catalog URL ends
  in \<open>.json\<close>, whatever \<open>verify_signatures\<close> is, and also when signature verification is
  disabled: the body is decoded as JSON and cached after one request. For any other URL
  with verification enabled, a fetched document is the one the signature verifier
  returned. With verification disabled, \<open>verify\<close> returns \<open>True\<close> at once, with no
  request: no content-integrity check is made.
\<close>

theorem fetch_unsigned_and_verify_disabled:
  "(\<forall>content d n.
       raise_for_status (net w (GET (url cat))) = Inr content
       \<and> (endswith (url cat) ''.json'' \<or> cat_verifier cat = None)
       \<and> json_loads L content = Inr d \<and> count_tools d = Inr n \<longrightarrow>
       fetch L net cat w = (Inr d, cat\<lparr>catalog_data := d\<rparr>, w @ [GET (url cat)]))
   \<and> (\<forall>content v d.
       raise_for_status (net w (GET (url cat))) = Inr content
       \<and> \<not> endswith (url cat) ''.json'' \<and> cat_verifier cat = Some v
       \<and> fst (fetch L net cat w) = Inr d \<longrightarrow>
       fst (verify_catalog L net v content (url cat) (w @ [GET (url cat)])) = Inr d)
   \<and> (\<not> verify_signatures cat \<or> cat_verifier cat = None \<longrightarrow>
       verify L net cat w = (Inr True, cat, w))"
  by (auto simp: fetch_def send_def parse_catalog_def verify_def
      split: sum.splits prod.splits option.splits)

theorem fetch_unsigned_and_verify_disabled_witness:
  "fetch example_lib example_net (Catalog_init ''http://example.com/catalog.json'' True) []
     = (Inr example_catalog,
        (Catalog_init ''http://example.com/catalog.json'' True)\<lparr>catalog_data := example_catalog\<rparr>,
        [GET ''http://example.com/catalog.json''])"
proof -
  let ?cat = "Catalog_init ''http://example.com/catalog.json'' True"
  have u: "url ?cat = ''http://example.com/catalog.json''"
    by (simp add: Catalog_init_def)
  have a: "raise_for_status (example_net [] (GET (url ?cat))) = Inr ''catalog''"
    by (simp add: u example_net_def example_get_def)
  have b: "endswith (url ?cat) ''.json''"
    by (simp add: u endswith_def)
  have c: "json_loads example_lib ''catalog'' = Inr example_catalog"
    by (simp add: example_lib_def example_loads_def)
  have d: "count_tools example_catalog = Inr 2"
    by (simp add: count_tools_def example_catalog_def)
  from fetch_unsigned_and_verify_disabled
    [where net = example_net and w = "[]" and L = example_lib and cat = ?cat] a b c d
  have "fetch example_lib example_net ?cat []
          = (Inr example_catalog, ?cat\<lparr>catalog_data := example_catalog\<rparr>, [] @ [GET (url ?cat)])"
    by blast
  then show ?thesis by (simp add: u)
qed

text \<open>
  C3 fails on the code: a record whose recorded digest differs from the digest of the
  fetched document makes \<open>verify\<close> return \<open>False\<close>; no exception is raised and the
  result names no record.
\<close>

theorem verify_mismatch_returns_False:
  "fst (verify example_lib example_net
          ((Catalog_init ''http://example.com/specs'' True)\<lparr>catalog_data := example_spec_catalog\<rparr>)
          []) = Inr False"
  by (simp add: verify_def Catalog_init_def example_spec_catalog_def spec_reference_def
      cat_verify_content_integrity_def send_def example_net_def example_get_def
      sha256_hexdigest_neq)

lemma verify_specs_stateless:
  assumes "\<forall>w u. net w (GET u) = get u"
  shows "except_False (fst (verify_specs net specs w)) = Inr (list_all (spec_record_ok get) specs)"
proof (induction specs arbitrary: w)
  case Nil
  then show ?case by simp
next
  case (Cons tspec rest)
  show ?case
  proof (cases "spec_reference tspec")
    case (Inl e)
    then have "\<not> spec_record_ok get tspec" by (simp add: spec_record_ok_def)
    with Inl show ?thesis by simp
  next
    case (Inr uh)
    obtain u h where uh: "uh = (u, h)" by (cases uh)
    show ?thesis
    proof (cases "truthy u \<and> truthy h")
      case False
      with Inr uh have "spec_record_ok get tspec" by (auto simp: spec_record_ok_def)
      with False Inr uh Cons.IH [of w] show ?thesis by auto
    next
      case True
      show ?thesis
      proof (cases u)
        case (JStr us)
        show ?thesis
        proof (cases "raise_for_status (get us)")
          case (Inl e)
          with Inr uh True JStr have "\<not> spec_record_ok get tspec"
            by (simp add: spec_record_ok_def)
          with Inl Inr uh True JStr assms show ?thesis
            by (simp add: cat_verify_content_integrity_def send_def)
        next
          case content: (Inr content)
          with Inr uh True JStr
          have ok: "spec_record_ok get tspec \<longleftrightarrow> JStr (sha256_hexdigest content) = h"
            by (simp add: spec_record_ok_def)
          show ?thesis
          proof (cases "JStr (sha256_hexdigest content) = h")
            case eq: True
            with ok content Inr uh True JStr assms Cons.IH [of "w @ [GET us]"] show ?thesis
              by (simp add: cat_verify_content_integrity_def send_def)
          next
            case neq: False
            with ok content Inr uh True JStr assms show ?thesis
              by (simp add: cat_verify_content_integrity_def send_def)
          qed
        qed
      next
        case JNull
        with Inr uh True show ?thesis by simp
      next
        case (JBool x)
        with Inr uh True have "\<not> spec_record_ok get tspec" by (simp add: spec_record_ok_def)
        with JBool Inr uh True show ?thesis by (simp add: cat_verify_content_integrity_def)
      next
        case (JInt x)
        with Inr uh True have "\<not> spec_record_ok get tspec" by (simp add: spec_record_ok_def)
        with JInt Inr uh True show ?thesis by (simp add: cat_verify_content_integrity_def)
      next
        case (JList x)
        with Inr uh True have "\<not> spec_record_ok get tspec" by (simp add: spec_record_ok_def)
        with JList Inr uh True show ?thesis by (simp add: cat_verify_content_integrity_def)
      next
        case (JObj x)
        with Inr uh True have "\<not> spec_record_ok get tspec" by (simp add: spec_record_ok_def)
        with JObj Inr uh True show ?thesis by (simp add: cat_verify_content_integrity_def)
      qed
    qed
  qed
qed

text \<open>
  C3 as amended. With signature verification enabled, a fetched catalog and a network whose
  answers depend on the URL only, \<open>verify\<close> returns a boolean and never raises: \<open>True\<close>
  if and only if every tool record with a non-empty \<open>spec_url\<close> and a non-empty
  \<open>spec_hash\<close> has its document fetched with a digest equal to the recorded one. A
  mismatch, a failed request or a malformed record on any single record makes the whole
  verification return \<open>False\<close>.
\<close>

theorem verify_iff_all_digests_match:
  assumes "\<forall>w u. net w (GET u) = get u"
    and "verify_signatures cat" and "cat_verifier cat = Some v"
    and "truthy (catalog_data cat)"
    and "and_then (py_get (catalog_data cat) ''tools'' (JList [])) py_iter = Inr specs"
  shows "fst (verify L net cat w) = Inr (list_all (spec_record_ok get) specs)"
  using assms verify_specs_stateless [OF assms(1), of specs w]
  by (cases "verify_specs net specs w") (simp add: verify_def)

theorem verify_iff_all_digests_match_witness:
  "fst (verify example_lib example_net
          ((Catalog_init ''http://example.com/specs'' True)\<lparr>catalog_data := example_spec_catalog\<rparr>)
          [])
     = Inr (list_all (spec_record_ok example_get)
              [JObj [(''name'', JStr ''a''),
                     (''spec_url'', JStr ''http://example.com/spec.yaml''),
                     (''spec_hash'', JStr ''00'')]])"
proof -
  let ?cat = "(Catalog_init ''http://example.com/specs'' True)\<lparr>catalog_data := example_spec_catalog\<rparr>"
  have a: "\<forall>w u. example_net w (GET u) = example_get u"
    by (simp add: example_net_def)
  have b: "verify_signatures ?cat" by (simp add: Catalog_init_def)
  have c: "cat_verifier ?cat = Some \<lparr>trusted_keys = []\<rparr>" by (simp add: Catalog_init_def)
  have d: "truthy (catalog_data ?cat)" by (simp add: example_spec_catalog_def)
  have e: "and_then (py_get (catalog_data ?cat) ''tools'' (JList [])) py_iter
             = Inr [JObj [(''name'', JStr ''a''),
                          (''spec_url'', JStr ''http://example.com/spec.yaml''),
                          (''spec_hash'', JStr ''00'')]]"
    by (simp add: example_spec_catalog_def)
  show ?thesis
    by (rule verify_iff_all_digests_match [OF a b c d e])
qed


subsection \<open>Signing\<close>

text \<open>
  C5 fails on the code. Signing the catalog of the signing tests succeeds and leaves the
  caller's document changed: its tool record has gained a \<open>spec_hash\<close>, because the copy
  made by \<open>catalog.copy()\<close> shares the tool records with the caller's dict.
\<close>

theorem sign_catalog_mutates_caller_document:
  "document example_store (PRef 0)
     = Some (JObj [(''version'', JStr ''1.0''),
                   (''tools'', JList [JObj [(''name'', JStr ''test_tool''),
                                            (''spec_url'', JStr ''http://example.com/spec.yaml'')]])])
   \<and> fst (sign_catalog example_encode \<lparr>private_key = ''k'', signer_key_id = None\<rparr> example_store (PRef 0))
       = Inr ''signed.jwt.token''
   \<and> document (snd (sign_catalog example_encode \<lparr>private_key = ''k'', signer_key_id = None\<rparr>
                       example_store (PRef 0))) (PRef 0)
     = Some (JObj [(''version'', JStr ''1.0''),
                   (''tools'', JList [JObj [(''name'', JStr ''test_tool''),
                                            (''spec_url'', JStr ''http://example.com/spec.yaml''),
                                            (''spec_hash'',
                                             JStr (sha256_hexdigest ''http://example.com/spec.yaml''))]])])"
  by (simp add: document_def example_store_def lookup_def sign_catalog_def
      add_content_hashes_def example_encode_def nth_append)


subsection \<open>The digest of the empty input\<close>

text \<open>
  The computation is followed block by block: the padded block and its sixteen words, the
  message schedule, the 64 rounds in eight groups of eight, and the final addition.
\<close>

lemma of_char_char_of_nat: "(of_char (char_of (n::nat)) :: u32) = of_nat (n mod 256)"
proof -
  have "(of_char (char_of n) :: u32) = of_nat (of_char (char_of n) :: nat)"
    by (simp only: of_nat_of_char)
  then show ?thesis by simp
qed

lemma chunks_numeral:
  "chunks (numeral n) k xs = take k xs # chunks (pred_numeral n) k (drop k xs)"
  by (simp add: numeral_eq_Suc)

lemma replicate_numeral: "replicate (numeral n) x = x # replicate (pred_numeral n) x"
  by (simp add: numeral_eq_Suc)

lemma schedule_numeral:
  "schedule (numeral n) ws =
     schedule (pred_numeral n) ((ssig1 (ws ! 1) + ws ! 6 + ssig0 (ws ! 14) + ws ! 15) # ws)"
  by (simp add: numeral_eq_Suc)

lemma pad_empty: "pad [] = char_of (128::nat) # replicate 63 (char_of (0::nat))"
  by (simp add: pad_def upt_rec replicate_numeral)

lemma blocks_empty: "chunks (length (pad []) div 64) 64 (pad []) = [pad []]"
  by (simp add: pad_empty)

lemma words_empty:
  "map be32 (chunks 16 4 (pad [])) =
    [0x80000000, 0x00000000, 0x00000000, 0x00000000, 0x00000000, 0x00000000,
    0x00000000, 0x00000000, 0x00000000, 0x00000000, 0x00000000, 0x00000000,
    0x00000000, 0x00000000, 0x00000000, 0x00000000]"
  by (simp add: pad_empty chunks_numeral replicate_numeral of_char_char_of_nat)

lemma schedule_empty:
  "rev (schedule 48 (rev
    [0x80000000, 0x00000000, 0x00000000, 0x00000000, 0x00000000, 0x00000000,
    0x00000000, 0x00000000, 0x00000000, 0x00000000, 0x00000000, 0x00000000,
    0x00000000, 0x00000000, 0x00000000, 0x00000000])) =
    [0x80000000, 0x00000000, 0x00000000, 0x00000000, 0x00000000, 0x00000000,
    0x00000000, 0x00000000, 0x00000000, 0x00000000, 0x00000000, 0x00000000,
    0x00000000, 0x00000000, 0x00000000, 0x00000000, 0x80000000, 0x00000000,
    0x00205000, 0x00000000, 0x22000800, 0x00000000, 0x05089542, 0x80000000,
    0x58080000, 0x0040a000, 0x00162505, 0x66001800, 0xd6222580, 0x14225508,
    0xd645f95c, 0xc9282000, 0xc3f10094, 0x284ca766, 0x06886dc6, 0xa37bf116,
    0x717cbe96, 0xfec2d74a, 0xa7b67f00, 0x811596a2, 0x98a6e768, 0x03b20c82,
    0x5d1da7c9, 0xb156b935, 0xc3ddca11, 0x249c107f, 0xc48d24ef, 0x5de54c30,
    0xdefece65, 0x2ca1480d, 0x3c15332c, 0x01cec9ad, 0x160cccd0, 0x0bacda98,
    0x361b8fe0, 0xd2320ba6, 0x029b7007, 0x7546587c, 0x07f54f39, 0xf808ddc3,
    0xdcca7608, 0x5e427188, 0x44bcec5d, 0x3b5ec49b]"
  by (simp add: schedule_numeral ssig0_def ssig1_def rotr_def)

lemma rounds_empty_0:
  "foldl round256
    [0x6a09e667, 0xbb67ae85, 0x3c6ef372, 0xa54ff53a,
    0x510e527f, 0x9b05688c, 0x1f83d9ab, 0x5be0cd19]
    [(0x428a2f98, 0x80000000), (0x71374491, 0x00000000), (0xb5c0fbcf, 0x00000000),
    (0xe9b5dba5, 0x00000000), (0x3956c25b, 0x00000000), (0x59f111f1, 0x00000000),
    (0x923f82a4, 0x00000000), (0xab1c5ed5, 0x00000000)] =
    [0x7ad5b1b6, 0xf0205590, 0x292e3b42, 0x4366f730,
    0x53f94dcb, 0x82ede06f, 0x4f6540fa, 0xe7d0641e]"
  by (simp add: Ch_def Maj_def bsig0_def bsig1_def rotr_def Let_def)

lemma rounds_empty_1:
  "foldl round256
    [0x7ad5b1b6, 0xf0205590, 0x292e3b42, 0x4366f730,
    0x53f94dcb, 0x82ede06f, 0x4f6540fa, 0xe7d0641e]
    [(0xd807aa98, 0x00000000), (0x12835b01, 0x00000000), (0x243185be, 0x00000000),
    (0x550c7dc3, 0x00000000), (0x72be5d74, 0x00000000), (0x80deb1fe, 0x00000000),
    (0x9bdc06a7, 0x00000000), (0xc19bf174, 0x00000000)] =
    [0xb40085b5, 0xb88afddb, 0x45c013a7, 0x2102d2cd,
    0x5cb8e863, 0x1ccfac39, 0x2b427296, 0xcdfdfe52]"
  by (simp add: Ch_def Maj_def bsig0_def bsig1_def rotr_def Let_def)

lemma rounds_empty_2:
  "foldl round256
    [0xb40085b5, 0xb88afddb, 0x45c013a7, 0x2102d2cd,
    0x5cb8e863, 0x1ccfac39, 0x2b427296, 0xcdfdfe52]
    [(0xe49b69c1, 0x80000000), (0xefbe4786, 0x00000000), (0x0fc19dc6, 0x00205000),
    (0x240ca1cc, 0x00000000), (0x2de92c6f, 0x22000800), (0x4a7484aa, 0x00000000),
    (0x5cb0a9dc, 0x05089542), (0x76f988da, 0x80000000)] =
    [0x985bed55, 0x404d8054, 0x99a6cb19, 0x75c7f0d8,
    0x2c2c028d, 0xb1653710, 0xc287981e, 0x39953ccd]"
  by (simp add: Ch_def Maj_def bsig0_def bsig1_def rotr_def Let_def)

lemma rounds_empty_3:
  "foldl round256
    [0x985bed55, 0x404d8054, 0x99a6cb19, 0x75c7f0d8,
    0x2c2c028d, 0xb1653710, 0xc287981e, 0x39953ccd]
    [(0x983e5152, 0x58080000), (0xa831c66d, 0x0040a000), (0xb00327c8, 0x00162505),
    (0xbf597fc7, 0x66001800), (0xc6e00bf3, 0xd6222580), (0xd5a79147, 0x14225508),
    (0x06ca6351, 0xd645f95c), (0x14292967, 0xc9282000)] =
    [0x11e7025f, 0xa0bb0cdf, 0x72d3a00d, 0x64bc9e1c,
    0xbbd7846c, 0x564a6626, 0xb04ab22d, 0x95696b75]"
  by (simp add: Ch_def Maj_def bsig0_def bsig1_def rotr_def Let_def)

lemma rounds_empty_4:
  "foldl round256
    [0x11e7025f, 0xa0bb0cdf, 0x72d3a00d, 0x64bc9e1c,
    0xbbd7846c, 0x564a6626, 0xb04ab22d, 0x95696b75]
    [(0x27b70a85, 0xc3f10094), (0x2e1b2138, 0x284ca766), (0x4d2c6dfc, 0x06886dc6),
    (0x53380d13, 0xa37bf116), (0x650a7354, 0x717cbe96), (0x766a0abb, 0xfec2d74a),
    (0x81c2c92e, 0xa7b67f00), (0x92722c85, 0x811596a2)] =
    [0x499911b1, 0x9e58e42f, 0x56e3dc4e, 0xa096535d,
    0x716bb025, 0x85a71424, 0xe807ea7f, 0xfac06aed]"
  by (simp add: Ch_def Maj_def bsig0_def bsig1_def rotr_def Let_def)

lemma rounds_empty_5:
  "foldl round256
    [0x499911b1, 0x9e58e42f, 0x56e3dc4e, 0xa096535d,
    0x716bb025, 0x85a71424, 0xe807ea7f, 0xfac06aed]
    [(0xa2bfe8a1, 0x98a6e768), (0xa81a664b, 0x03b20c82), (0xc24b8b70, 0x5d1da7c9),
    (0xc76c51a3, 0xb156b935), (0xd192e819, 0xc3ddca11), (0xd6990624, 0x249c107f),
    (0xf40e3585, 0xc48d24ef), (0x106aa070, 0x5de54c30)] =
    [0x365a34cd, 0x54982d6c, 0x32fa442b, 0xa40972d4,
    0xcbb3f8eb, 0x8a6a82b2, 0xd285c679, 0xaa2c1810]"
  by (simp add: Ch_def Maj_def bsig0_def bsig1_def rotr_def Let_def)

lemma rounds_empty_6:
  "foldl round256
    [0x365a34cd, 0x54982d6c, 0x32fa442b, 0xa40972d4,
    0xcbb3f8eb, 0x8a6a82b2, 0xd285c679, 0xaa2c1810]
    [(0x19a4c116, 0xdefece65), (0x1e376c08, 0x2ca1480d), (0x2748774c, 0x3c15332c),
    (0x34b0bcb5, 0x01cec9ad), (0x391c0cb3, 0x160cccd0), (0x4ed8aa4a, 0x0bacda98),
    (0x5b9cca4f, 0x361b8fe0), (0x682e6ff3, 0xd2320ba6)] =
    [0x01638014, 0x2caf58ca, 0x3a0e9477, 0xb1b29c90,
    0xadf94e0a, 0xe588e598, 0xfd99936e, 0x43a5def8]"
  by (simp add: Ch_def Maj_def bsig0_def bsig1_def rotr_def Let_def)

lemma rounds_empty_7:
  "foldl round256
    [0x01638014, 0x2caf58ca, 0x3a0e9477, 0xb1b29c90,
    0xadf94e0a, 0xe588e598, 0xfd99936e, 0x43a5def8]
    [(0x748f82ee, 0x029b7007), (0x78a5636f, 0x7546587c), (0x84c87814, 0x07f54f39),
    (0x8cc70208, 0xf808ddc3), (0x90befffa, 0xdcca7608), (0xa4506ceb, 0x5e427188),
    (0xbef9a3f7, 0x44bcec5d), (0xc67178f2, 0x3b5ec49b)] =
    [0x79a6dddb, 0xdd946d8f, 0x5e8d0156, 0xf41fc3ea,
    0xd69fef65, 0xc9962ac0, 0x8511bf70, 0x1c71eb3c]"
  by (simp add: Ch_def Maj_def bsig0_def bsig1_def rotr_def Let_def)

lemma rounds_empty:
  "foldl round256 H256 (zip K256
    [0x80000000, 0x00000000, 0x00000000, 0x00000000, 0x00000000, 0x00000000,
    0x00000000, 0x00000000, 0x00000000, 0x00000000, 0x00000000, 0x00000000,
    0x00000000, 0x00000000, 0x00000000, 0x00000000, 0x80000000, 0x00000000,
    0x00205000, 0x00000000, 0x22000800, 0x00000000, 0x05089542, 0x80000000,
    0x58080000, 0x0040a000, 0x00162505, 0x66001800, 0xd6222580, 0x14225508,
    0xd645f95c, 0xc9282000, 0xc3f10094, 0x284ca766, 0x06886dc6, 0xa37bf116,
    0x717cbe96, 0xfec2d74a, 0xa7b67f00, 0x811596a2, 0x98a6e768, 0x03b20c82,
    0x5d1da7c9, 0xb156b935, 0xc3ddca11, 0x249c107f, 0xc48d24ef, 0x5de54c30,
    0xdefece65, 0x2ca1480d, 0x3c15332c, 0x01cec9ad, 0x160cccd0, 0x0bacda98,
    0x361b8fe0, 0xd2320ba6, 0x029b7007, 0x7546587c, 0x07f54f39, 0xf808ddc3,
    0xdcca7608, 0x5e427188, 0x44bcec5d, 0x3b5ec49b]) =
    [0x79a6dddb, 0xdd946d8f, 0x5e8d0156, 0xf41fc3ea,
    0xd69fef65, 0xc9962ac0, 0x8511bf70, 0x1c71eb3c]"
proof -
  have z: "zip K256
    [0x80000000, 0x00000000, 0x00000000, 0x00000000, 0x00000000, 0x00000000,
    0x00000000, 0x00000000, 0x00000000, 0x00000000, 0x00000000, 0x00000000,
    0x00000000, 0x00000000, 0x00000000, 0x00000000, 0x80000000, 0x00000000,
    0x00205000, 0x00000000, 0x22000800, 0x00000000, 0x05089542, 0x80000000,
    0x58080000, 0x0040a000, 0x00162505, 0x66001800, 0xd6222580, 0x14225508,
    0xd645f95c, 0xc9282000, 0xc3f10094, 0x284ca766, 0x06886dc6, 0xa37bf116,
    0x717cbe96, 0xfec2d74a, 0xa7b67f00, 0x811596a2, 0x98a6e768, 0x03b20c82,
    0x5d1da7c9, 0xb156b935, 0xc3ddca11, 0x249c107f, 0xc48d24ef, 0x5de54c30,
    0xdefece65, 0x2ca1480d, 0x3c15332c, 0x01cec9ad, 0x160cccd0, 0x0bacda98,
    0x361b8fe0, 0xd2320ba6, 0x029b7007, 0x7546587c, 0x07f54f39, 0xf808ddc3,
    0xdcca7608, 0x5e427188, 0x44bcec5d, 0x3b5ec49b] =
    [(0x428a2f98, 0x80000000), (0x71374491, 0x00000000), (0xb5c0fbcf, 0x00000000),
    (0xe9b5dba5, 0x00000000), (0x3956c25b, 0x00000000), (0x59f111f1, 0x00000000),
    (0x923f82a4, 0x00000000), (0xab1c5ed5, 0x00000000)] @
    [(0xd807aa98, 0x00000000), (0x12835b01, 0x00000000), (0x243185be, 0x00000000),
    (0x550c7dc3, 0x00000000), (0x72be5d74, 0x00000000), (0x80deb1fe, 0x00000000),
    (0x9bdc06a7, 0x00000000), (0xc19bf174, 0x00000000)] @
    [(0xe49b69c1, 0x80000000), (0xefbe4786, 0x00000000), (0x0fc19dc6, 0x00205000),
    (0x240ca1cc, 0x00000000), (0x2de92c6f, 0x22000800), (0x4a7484aa, 0x00000000),
    (0x5cb0a9dc, 0x05089542), (0x76f988da, 0x80000000)] @
    [(0x983e5152, 0x58080000), (0xa831c66d, 0x0040a000), (0xb00327c8, 0x00162505),
    (0xbf597fc7, 0x66001800), (0xc6e00bf3, 0xd6222580), (0xd5a79147, 0x14225508),
    (0x06ca6351, 0xd645f95c), (0x14292967, 0xc9282000)] @
    [(0x27b70a85, 0xc3f10094), (0x2e1b2138, 0x284ca766), (0x4d2c6dfc, 0x06886dc6),
    (0x53380d13, 0xa37bf116), (0x650a7354, 0x717cbe96), (0x766a0abb, 0xfec2d74a),
    (0x81c2c92e, 0xa7b67f00), (0x92722c85, 0x811596a2)] @
    [(0xa2bfe8a1, 0x98a6e768), (0xa81a664b, 0x03b20c82), (0xc24b8b70, 0x5d1da7c9),
    (0xc76c51a3, 0xb156b935), (0xd192e819, 0xc3ddca11), (0xd6990624, 0x249c107f),
    (0xf40e3585, 0xc48d24ef), (0x106aa070, 0x5de54c30)] @
    [(0x19a4c116, 0xdefece65), (0x1e376c08, 0x2ca1480d), (0x2748774c, 0x3c15332c),
    (0x34b0bcb5, 0x01cec9ad), (0x391c0cb3, 0x160cccd0), (0x4ed8aa4a, 0x0bacda98),
    (0x5b9cca4f, 0x361b8fe0), (0x682e6ff3, 0xd2320ba6)] @
    [(0x748f82ee, 0x029b7007), (0x78a5636f, 0x7546587c), (0x84c87814, 0x07f54f39),
    (0x8cc70208, 0xf808ddc3), (0x90befffa, 0xdcca7608), (0xa4506ceb, 0x5e427188),
    (0xbef9a3f7, 0x44bcec5d), (0xc67178f2, 0x3b5ec49b)]"
    by (simp add: K256_def)
  show ?thesis
    by (simp only: z H256_def foldl_append rounds_empty_0 rounds_empty_1 rounds_empty_2 rounds_empty_3 rounds_empty_4 rounds_empty_5 rounds_empty_6 rounds_empty_7)
qed

lemma compress_empty:
  "compress H256 (pad []) =
    [0xe3b0c442, 0x98fc1c14, 0x9afbf4c8, 0x996fb924,
    0x27ae41e4, 0x649b934c, 0xa495991b, 0x7852b855]"
  by (simp only: compress_def Let_def words_empty schedule_empty rounds_empty)
     (simp add: H256_def)

lemma sha256_hexdigest_empty:
  "sha256_hexdigest [] = ''e3b0c44298fc1c149afbf4c8996fb92427ae41e4649b934ca495991b7852b855''"
  by (simp add: sha256_hexdigest_def blocks_empty compress_empty hex32_def hexdigit_def upt_rec)

text \<open>
  C6 fails as written: the string the specification gives for the empty input has 63
  characters; the digest of the empty input is not that string.
\<close>

theorem compute_sha256_empty_is_not_the_63_character_string:
  "compute_sha256 [] \<noteq> ''e3b0c44298fc1c149afbf4c8996fb92427ae41e4649b934ca495991b7852b85''"
  by (simp add: compute_sha256_def sha256_hexdigest_empty)

text \<open>
  C6 as amended. The digest is a function of the content alone (equal contents give equal
  digests), it always has 64 characters, and for the empty input it is
  \<open>e3b0c44298fc1c149afbf4c8996fb92427ae41e4649b934ca495991b7852b855\<close>, the value the
  repository's own test expects.
\<close>

theorem compute_sha256_deterministic_and_empty:
  "(x = y \<longrightarrow> compute_sha256 x = compute_sha256 y)
   \<and> length (compute_sha256 x) = 64
   \<and> compute_sha256 [] = ''e3b0c44298fc1c149afbf4c8996fb92427ae41e4649b934ca495991b7852b855''"
  by (simp add: compute_sha256_def sha256_hexdigest_empty length_sha256_hexdigest)

theorem compute_sha256_deterministic_and_empty_witness:
  "compute_sha256 [] = compute_sha256 []
   \<and> length (compute_sha256 []) = 64
   \<and> compute_sha256 [] = ''e3b0c44298fc1c149afbf4c8996fb92427ae41e4649b934ca495991b7852b855''"
  using compute_sha256_deterministic_and_empty [of "[]" "[]"] by simp


end
